theory Spec2Isabelle
  imports Complex_Main
begin

section \<open>JavaScript values as the dashboard scripts see them\<close>

text \<open>
  The scripts receive parsed JSON and read fields of it without checking their types, so a
  field is modelled as a JavaScript value. Numbers are IEEE doubles in the source; every
  comparison the scripts make (\<open>< 25\<close>, \<open>>= 30\<close>, \<open>< 3\<close>, \<open>>= 4\<close>) is exact on doubles, so a
  number is modelled by its mathematical value, with \<open>NaN\<close> and the two infinities beside the
  finite values. Strings are byte strings (UTF-8); the characters the scripts inspect are all
  ASCII.
\<close>

datatype jsnum = NaN | NegInf | Fin rat | PosInf

datatype jsval =
    Undefined
  | Null
  | Bool bool
  | Num jsnum
  | Str string
  | Arr "jsval list"
  | Obj "(string \<times> jsval) list"

text \<open>
  What the engine does between numbers and strings (\<open>Number(s)\<close> on a string, \<open>String(n)\<close> on a
  number, \<open>n.toFixed(d)\<close>) is floating-point formatting and parsing; it is not code of the
  repository and is taken as a parameter. So is the split of a string into its UTF-16 code
  units, each as a string of its own, which is what the engine enumerates as the properties
  of a string.
\<close>

record host =
  stringToNumber :: "string \<Rightarrow> jsnum"
  numberToString :: "jsnum \<Rightarrow> string"
  toFixed :: "jsnum \<Rightarrow> nat \<Rightarrow> string"
  codeUnits :: "string \<Rightarrow> string list"

definition nl :: string where
  "nl = [CHR 0x0A]"

fun join :: "string \<Rightarrow> string list \<Rightarrow> string" where
  "join sep [] = []"
| "join sep [x] = x"
| "join sep (x # y # ys) = x @ sep @ join sep (y # ys)"

fun showNat :: "nat \<Rightarrow> string" where
  "showNat n = (if n < 10 then [''0123456789'' ! n]
                else showNat (n div 10) @ [''0123456789'' ! (n mod 10)])"

declare showNat.simps [simp del]

text \<open>\<open>String(v)\<close>: an array prints its elements separated by commas, \<open>null\<close> and
  \<open>undefined\<close> elements as the empty string.\<close>

fun ToString :: "host \<Rightarrow> jsval \<Rightarrow> string" where
  "ToString h Undefined = ''undefined''"
| "ToString h Null = ''null''"
| "ToString h (Bool b) = (if b then ''true'' else ''false'')"
| "ToString h (Num n) = numberToString h n"
| "ToString h (Str s) = s"
| "ToString h (Arr xs) =
     join '','' (map (\<lambda>x. if x = Undefined \<or> x = Null then [] else ToString h x) xs)"
| "ToString h (Obj kvs) = ''[object Object]''"

text \<open>\<open>Number(v)\<close>.\<close>

fun Number :: "host \<Rightarrow> jsval \<Rightarrow> jsnum" where
  "Number h Undefined = NaN"
| "Number h Null = Fin 0"
| "Number h (Bool b) = (if b then Fin 1 else Fin 0)"
| "Number h (Num n) = n"
| "Number h (Str s) = stringToNumber h s"
| "Number h (Arr xs) = stringToNumber h (ToString h (Arr xs))"
| "Number h (Obj kvs) = stringToNumber h (ToString h (Obj kvs))"

text \<open>Truthiness, as \<open>||\<close>, \<open>!\<close> and \<open>filter(Boolean)\<close> use it.\<close>

fun truthy :: "jsval \<Rightarrow> bool" where
  "truthy Undefined = False"
| "truthy Null = False"
| "truthy (Bool b) = b"
| "truthy (Num n) = (n \<noteq> NaN \<and> n \<noteq> Fin 0)"
| "truthy (Str s) = (s \<noteq> [])"
| "truthy (Arr xs) = True"
| "truthy (Obj kvs) = True"

text \<open>\<open>v == null\<close> holds of \<open>null\<close> and \<open>undefined\<close> only.\<close>

definition nullish :: "jsval \<Rightarrow> bool" where
  "nullish v = (v = Null \<or> v = Undefined)"

text \<open>The relational operators on numbers: every comparison with \<open>NaN\<close> is false.\<close>

fun num_lt :: "jsnum \<Rightarrow> jsnum \<Rightarrow> bool" where
  "num_lt NaN y = False"
| "num_lt x NaN = False"
| "num_lt (Fin a) (Fin b) = (a < b)"
| "num_lt NegInf y = (y \<noteq> NegInf)"
| "num_lt x PosInf = (x \<noteq> PosInf)"
| "num_lt x y = False"

definition num_ge :: "jsnum \<Rightarrow> jsnum \<Rightarrow> bool" where
  "num_ge x y = (x \<noteq> NaN \<and> y \<noteq> NaN \<and> \<not> num_lt x y)"

section \<open>The clinician dashboard: escaping and list cells\<close>

definition escapeChar :: "char \<Rightarrow> string" where
  \<open>escapeChar c =
     (if c = CHR ''&'' then ''&amp;''
      else if c = CHR ''<'' then ''&lt;''
      else if c = CHR ''>'' then ''&gt;''
      else if c = CHR 0x22 then ''&quot;''
      else if c = CHR 0x27 then ''&#039;''
      else [c])\<close>

definition escapeHtml :: "host \<Rightarrow> jsval \<Rightarrow> string" where
  "escapeHtml h str = concat (map escapeChar (ToString h (if nullish str then Str [] else str)))"

definition listItems :: "host \<Rightarrow> jsval list \<Rightarrow> string" where
  "listItems h xs = concat (map (\<lambda>x. ''<li>'' @ escapeHtml h x @ ''</li>'') xs)"

definition renderListCell :: "host \<Rightarrow> jsval \<Rightarrow> string" where
  \<open>renderListCell h items =
     (let arr = (case items of Arr xs \<Rightarrow> filter truthy xs | _ \<Rightarrow> []) in
      if length arr = 0 then ''<span class="muted">'' @ [CHR 0xE2, CHR 0x80, CHR 0x94] @ ''</span>''
      else
        let first = take 3 arr;
            rest = drop 3 arr;
            firstHtml = ''<ul class="cell-list">'' @ listItems h first @ ''</ul>''
        in if length rest = 0 then firstHtml
           else firstHtml @ nl
             @ ''    <details class="cell-details">'' @ nl
             @ ''      <summary>Show all ('' @ showNat (length arr) @ '')</summary>'' @ nl
             @ ''      <ul class="cell-list">'' @ listItems h arr @ ''</ul>'' @ nl
             @ ''    </details>'' @ nl
             @ ''  '')\<close>

section \<open>Records and the table renderer\<close>

text \<open>
  A record of the data model. Every field holds whatever the JSON carried; an absent field is
  \<open>Undefined\<close>.
\<close>

record jsrecord =
  name :: jsval
  bmi :: jsval
  diet :: jsval
  exercise :: jsval
  general :: jsval
  feedback :: jsval
  risks :: jsval
  ai_explanation :: jsval

text \<open>
  \<open>renderTable\<close> pushes into a record's own \<open>risks\<close> array, and the array of rows it is given
  holds the same objects as \<open>allPatients\<close>. Records therefore live in a store, and a record set
  is a list of references into it. (Parsed JSON shares no arrays between records, so a
  record's arrays are kept inside the record.)
\<close>

type_synonym ref = nat
type_synonym store = "ref \<Rightarrow> jsrecord"

definition arrayJoin :: "host \<Rightarrow> string \<Rightarrow> jsval list \<Rightarrow> string" where
  "arrayJoin h sep xs = join sep (map (\<lambda>x. if nullish x then [] else ToString h x) xs)"

definition warningSign :: string where
  "warningSign = [CHR 0xE2, CHR 0x9A, CHR 0xA0, CHR 0xEF, CHR 0xB8, CHR 0x8F]"

definition highBmiLabel :: string where
  "highBmiLabel = warningSign @ '' High BMI''"

definition lowFeedbackLabel :: string where
  "lowFeedbackLabel = warningSign @ '' Low Feedback''"

text \<open>\<open>fb\<close> of the source: \<open>null\<close> when the feedback is \<open>null\<close> or absent, its number otherwise.\<close>

definition fbOf :: "host \<Rightarrow> jsrecord \<Rightarrow> jsnum option" where
  "fbOf h p = (if feedback p = Null \<or> feedback p = Undefined then None
               else Some (Number h (feedback p)))"

text \<open>The labels the two \<open>push\<close> statements add, in their order.\<close>

definition pushed :: "host \<Rightarrow> jsrecord \<Rightarrow> jsval list" where
  "pushed h p =
     (if Number h (bmi p) \<noteq> NaN \<and> num_ge (Number h (bmi p)) (Fin 30) then [Str highBmiLabel] else [])
     @ (case fbOf h p of
          None \<Rightarrow> []
        | Some fb \<Rightarrow> if num_lt fb (Fin 3) then [Str lowFeedbackLabel] else [])"

text \<open>
  The risk list of a row and the record as the row leaves it. When \<open>p.risks\<close> is an array,
  \<open>risks\<close> is that very array and the pushes change the record; otherwise \<open>risks\<close> is a fresh
  array and the record is untouched.
\<close>

definition rowRisks :: "host \<Rightarrow> jsrecord \<Rightarrow> jsval list \<times> jsrecord" where
  "rowRisks h p =
     (case risks p of
        Arr xs \<Rightarrow> if length xs = 0 then (pushed h p, p\<lparr>risks := Arr (pushed h p)\<rparr>) else (xs, p)
      | _ \<Rightarrow> (pushed h p, p))"

definition riskText :: "host \<Rightarrow> jsrecord \<Rightarrow> string" where
  "riskText h p =
     (let rs = fst (rowRisks h p) in if length rs \<noteq> 0 then arrayJoin h '' | '' rs else ''None'')"

definition riskCell :: "host \<Rightarrow> jsrecord \<Rightarrow> string" where
  "riskCell h p = escapeHtml h (Str (riskText h p))"

definition rowHtml :: "host \<Rightarrow> jsrecord \<Rightarrow> string" where
  \<open>rowHtml h p =
     nl @ ''      <tr>'' @ nl
     @ ''        <td class="patient-name"><strong>''
         @ escapeHtml h (if truthy (name p) then name p else Str ''Unknown'') @ ''</strong></td>'' @ nl
     @ ''        <td>'' @ (if Number h (bmi p) = NaN then ''N/A'' else toFixed h (Number h (bmi p)) 2)
         @ ''</td>'' @ nl
     @ ''        <td>'' @ renderListCell h (diet p) @ ''</td>'' @ nl
     @ ''        <td>'' @ renderListCell h (exercise p) @ ''</td>'' @ nl
     @ ''        <td>'' @ renderListCell h (general p) @ ''</td>'' @ nl
     @ ''        <td>'' @ (case fbOf h p of None \<Rightarrow> ''N/A'' | Some fb \<Rightarrow> toFixed h fb 1 @ ''/5'')
         @ ''</td>'' @ nl
     @ ''        <td>'' @ riskCell h p @ ''</td>'' @ nl
     @ ''        <td class="ai-cell"><div class="ai-wrap">''
         @ escapeHtml h (if truthy (ai_explanation p) then ai_explanation p else Str [])
         @ ''</div></td>'' @ nl
     @ ''      </tr>'' @ nl
     @ ''    ''\<close>

definition tableHead :: string where
  \<open>tableHead =
     nl @ ''    <table class="dashboard-table clinician-table">'' @ nl
     @ ''      <thead>'' @ nl
     @ ''        <tr>'' @ nl
     @ ''          <th class="col-patient">Patient</th>'' @ nl
     @ ''          <th class="col-bmi">BMI</th>'' @ nl
     @ ''          <th class="col-diet">Diet</th>'' @ nl
     @ ''          <th class="col-exercise">Exercise</th>'' @ nl
     @ ''          <th class="col-general">General Advice</th>'' @ nl
     @ ''          <th class="col-feedback">Avg Feedback</th>'' @ nl
     @ ''          <th class="col-risk">Risk</th>'' @ nl
     @ ''          <th class="col-ai">AI Interpretation</th>'' @ nl
     @ ''        </tr>'' @ nl
     @ ''      </thead>'' @ nl
     @ ''      <tbody>'' @ nl
     @ ''  ''\<close>

text \<open>The \<open>forEach\<close> loop: the markup so far and the store are threaded through the rows.\<close>

fun renderRows :: "host \<Rightarrow> ref list \<Rightarrow> string \<times> store \<Rightarrow> string \<times> store" where
  "renderRows h [] (html, s) = (html, s)"
| "renderRows h (a # as) (html, s) =
     renderRows h as (html @ rowHtml h (s a), s(a := snd (rowRisks h (s a))))"

text \<open>\<open>renderTable(rows)\<close>: the markup assigned to the table host, and the store afterwards.\<close>

definition renderTable :: "host \<Rightarrow> ref list \<Rightarrow> store \<Rightarrow> string \<times> store" where
  \<open>renderTable h rows s =
     (if length rows = 0 then (''<p style="color:#555;">No data to display.</p>'', s)
      else let (html, s') = renderRows h rows (tableHead, s)
           in (html @ ''</tbody></table>'', s'))\<close>

section \<open>Charts\<close>

text \<open>
  The charting library is an external collaborator. What the scripts rely on is its life
  cycle: \<open>new Chart(canvas, config)\<close> makes a new live instance bound to the canvas, and
  \<open>destroy()\<close> ends the instance it is called on (and does nothing to an instance that is no
  longer live). The library is modelled by the list of its live instances.
\<close>

record chart =
  canvas :: string
  kind :: string
  labels :: "string list"
  seriesLabel :: string
  series :: "jsval list"

record registry =
  live :: "(nat \<times> chart) list"
  nextId :: nat

definition newChart :: "chart \<Rightarrow> registry \<Rightarrow> nat \<times> registry" where
  "newChart c r = (nextId r, r\<lparr>live := live r @ [(nextId r, c)], nextId := Suc (nextId r)\<rparr>)"

definition destroy :: "nat \<Rightarrow> registry \<Rightarrow> registry" where
  "destroy i r = r\<lparr>live := filter (\<lambda>(j, c). j \<noteq> i) (live r)\<rparr>"

text \<open>\<open>if (instance) instance.destroy()\<close>: the variable keeps its value.\<close>

definition destroyIfSet :: "nat option \<Rightarrow> registry \<Rightarrow> registry" where
  "destroyIfSet v r = (case v of None \<Rightarrow> r | Some i \<Rightarrow> destroy i r)"

text \<open>The live instances bound to a canvas.\<close>

definition boundTo :: "string \<Rightarrow> registry \<Rightarrow> nat list" where
  "boundTo cv r = map fst (filter (\<lambda>(j, c). canvas c = cv) (live r))"

section \<open>The clinician page\<close>

record page =
  store :: store
  allPatients :: "ref list"
  patientsTable :: string
  statusMsg :: "string option"
  bmiCanvas :: bool
  fbCanvas :: bool
  bmiChartInstance :: "nat option"
  feedbackChartInstance :: "nat option"
  lib :: registry

definition showStatus :: "string \<Rightarrow> page \<Rightarrow> page" where
  "showStatus msg pg = pg\<lparr>statusMsg := Some msg\<rparr>"

definition clearStatus :: "page \<Rightarrow> page" where
  "clearStatus pg = pg\<lparr>statusMsg := None\<rparr>"

definition renderTablePage :: "host \<Rightarrow> ref list \<Rightarrow> page \<Rightarrow> page" where
  "renderTablePage h rows pg =
     (let (html, s') = renderTable h rows (store pg) in pg\<lparr>store := s', patientsTable := html\<rparr>)"

definition positionLabels :: "nat \<Rightarrow> string list" where
  "positionLabels n = map (\<lambda>i. ''#'' @ showNat (i + 1)) [0..<n]"

definition drawCharts :: "host \<Rightarrow> ref list \<Rightarrow> page \<Rightarrow> page" where
  "drawCharts h rows pg =
     (if \<not> bmiCanvas pg \<or> \<not> fbCanvas pg then pg
      else
        let r1 = destroyIfSet (bmiChartInstance pg) (lib pg);
            r2 = destroyIfSet (feedbackChartInstance pg) r1
        in if length rows = 0 then pg\<lparr>lib := r2\<rparr>
           else
             let lbls = positionLabels (length rows);
                 bmiValues = map (\<lambda>a. Num (Number h (bmi (store pg a)))) rows;
                 feedbackValues =
                   map (\<lambda>a. if nullish (feedback (store pg a)) then Num (Fin 0)
                            else Num (Number h (feedback (store pg a)))) rows;
                 (i, r3) = newChart \<lparr>canvas = ''bmiChart'', kind = ''line'', labels = lbls,
                                      seriesLabel = ''BMI'', series = bmiValues\<rparr> r2;
                 (j, r4) = newChart \<lparr>canvas = ''feedbackChart'', kind = ''bar'', labels = lbls,
                                      seriesLabel = ''Feedback (0 = N/A)'',
                                      series = feedbackValues\<rparr> r3
             in pg\<lparr>bmiChartInstance := Some i, feedbackChartInstance := Some j, lib := r4\<rparr>)"

text \<open>
  \<open>applyFilters\<close>, with the values of the two form controls as arguments. \<open>selectRows\<close> is the
  chain of \<open>filter\<close> calls on the copy of \<open>allPatients\<close>.
\<close>

definition selectRows :: "host \<Rightarrow> string \<Rightarrow> string \<Rightarrow> store \<Rightarrow> ref list \<Rightarrow> ref list" where
  "selectRows h bmiFilter feedbackFilter s allp =
     (let filtered = allp;
          filtered = (if bmiFilter = ''low''
                      then filter (\<lambda>a. num_lt (Number h (bmi (s a))) (Fin 25)) filtered
                      else filtered);
          filtered = (if bmiFilter = ''medium''
                      then filter (\<lambda>a. num_ge (Number h (bmi (s a))) (Fin 25)
                                      \<and> num_lt (Number h (bmi (s a))) (Fin 30)) filtered
                      else filtered);
          filtered = (if bmiFilter = ''high''
                      then filter (\<lambda>a. num_ge (Number h (bmi (s a))) (Fin 30)) filtered
                      else filtered);
          filtered = (if feedbackFilter = ''low''
                      then filter (\<lambda>a. \<not> nullish (feedback (s a))
                                      \<and> num_lt (Number h (feedback (s a))) (Fin 3)) filtered
                      else filtered);
          filtered = (if feedbackFilter = ''high''
                      then filter (\<lambda>a. \<not> nullish (feedback (s a))
                                      \<and> num_ge (Number h (feedback (s a))) (Fin 4)) filtered
                      else filtered)
      in filtered)"

definition applyFilters :: "host \<Rightarrow> string \<Rightarrow> string \<Rightarrow> page \<Rightarrow> page" where
  "applyFilters h bmiFilter feedbackFilter pg =
     (let pg1 = clearStatus pg;
          filtered = selectRows h bmiFilter feedbackFilter (store pg1) (allPatients pg1);
          pg2 = renderTablePage h filtered pg1;
          pg3 = drawCharts h filtered pg2
      in if length filtered = 0 then showStatus ''No patients match the selected filters.'' pg3
         else pg3)"

text \<open>A run of filter applications, one pair of control values per click on Apply.\<close>

fun applyAll :: "host \<Rightarrow> (string \<times> string) list \<Rightarrow> page \<Rightarrow> page" where
  "applyAll h [] pg = pg"
| "applyAll h ((b, f) # fs) pg = applyAll h fs (applyFilters h b f pg)"

fun drawAll :: "host \<Rightarrow> ref list list \<Rightarrow> page \<Rightarrow> page" where
  "drawAll h [] pg = pg"
| "drawAll h (rows # rs) pg = drawAll h rs (drawCharts h rows pg)"

section \<open>Errors, property reads and the resilient fetcher\<close>

datatype error =
    TypeError
  | FetchRejected string
  | JsonRejected string
  | StatusError string nat
  | NullThrown

text \<open>
  \<open>v.k\<close> on a value of parsed JSON, for the property names the scripts read: it throws on
  \<open>null\<close> and \<open>undefined\<close>, reads an object's property (\<open>undefined\<close> when absent), and is
  \<open>undefined\<close> on every other value. An object lists each key once.
\<close>

definition getProp :: "jsval \<Rightarrow> string \<Rightarrow> error + jsval" where
  "getProp v k =
     (case v of
        Undefined \<Rightarrow> Inl TypeError
      | Null \<Rightarrow> Inl TypeError
      | Obj kvs \<Rightarrow> (case map_of kvs k of None \<Rightarrow> Inr Undefined | Some x \<Rightarrow> Inr x)
      | _ \<Rightarrow> Inr Undefined)"

text \<open>
  One answer of the network to a request: either \<open>fetch\<close> rejects, or there is a response
  with a status whose \<open>json()\<close> yields a value or rejects.
\<close>

datatype response = NoResponse string | Response nat "string + jsval"

definition ok :: "nat \<Rightarrow> bool" where
  "ok status = (200 \<le> status \<and> status \<le> 299)"

text \<open>The body of the \<open>try\<close> block.\<close>

definition attempt :: "string \<Rightarrow> response \<Rightarrow> error + jsval" where
  "attempt url r =
     (case r of
        NoResponse m \<Rightarrow> Inl (FetchRejected m)
      | Response status body \<Rightarrow>
          if \<not> ok status then Inl (StatusError url status)
          else (case body of Inl m \<Rightarrow> Inl (JsonRejected m) | Inr v \<Rightarrow> Inr v))"

datatype event = Request string | Sleep nat

text \<open>
  The \<open>for\<close> loop of \<open>fetchWithRetry\<close>. \<open>net i\<close> is the network's answer to the request of
  iteration \<open>i\<close>; the trace records every request issued and every timer awaited, in order.
\<close>

function fetchLoop ::
  "(nat \<Rightarrow> response) \<Rightarrow> string \<Rightarrow> nat \<Rightarrow> nat \<Rightarrow> error option \<Rightarrow> event list
     \<Rightarrow> (error + jsval) \<times> event list" where
  "fetchLoop net url tries i lastErr tr =
     (if i < tries then
        (case attempt url (net i) of
           Inr v \<Rightarrow> (Inr v, tr @ [Request url])
         | Inl err \<Rightarrow>
             fetchLoop net url tries (Suc i) (Some err) (tr @ [Request url, Sleep (250 * (i + 1))]))
      else (Inl (case lastErr of None \<Rightarrow> NullThrown | Some e \<Rightarrow> e), tr))"
  by pat_completeness auto
termination
  by (relation "measure (\<lambda>(net, url, tries, i, lastErr, tr). tries - i)") auto

declare fetchLoop.simps [simp del]

definition fetchWithRetry :: "(nat \<Rightarrow> response) \<Rightarrow> string \<Rightarrow> nat \<Rightarrow> (error + jsval) \<times> event list" where
  "fetchWithRetry net url tries = fetchLoop net url tries 0 None []"

section \<open>Session guards\<close>

text \<open>
  What a guard can change: the location the window is sent to, the text of the welcome
  header, and the patient script's \<open>currentUserId\<close>. The argument \<open>data\<close> is the parsed body of
  \<open>/whoami\<close>; a guard returns the value of its \<open>return\<close> statement, \<open>undefined\<close> when it has none.
\<close>

record session =
  location :: "string option"
  welcomeText :: "string option"
  currentUserId :: jsval

definition requireClinicianAndSetHeader ::
  "host \<Rightarrow> bool \<Rightarrow> jsval \<Rightarrow> session \<Rightarrow> error + (jsval \<times> session)" where
  "requireClinicianAndSetHeader h hasWelcome data st =
     (case getProp data ''role'' of
        Inl e \<Rightarrow> Inl e
      | Inr role \<Rightarrow>
          if role \<noteq> Str ''clinician''
          then Inr (Bool False, st\<lparr>location := Some ''/clinician_login.html''\<rparr>)
          else if hasWelcome
          then (case getProp data ''name'' of
                  Inl e \<Rightarrow> Inl e
                | Inr nm \<Rightarrow>
                    Inr (Bool True,
                         st\<lparr>welcomeText :=
                              Some (''Welcome, ''
                                    @ ToString h (if truthy nm then nm else Str ''Clinician''))\<rparr>))
          else Inr (Bool True, st))"

definition mustBePatient :: "jsval \<Rightarrow> session \<Rightarrow> error + (jsval \<times> session)" where
  "mustBePatient me st =
     (case getProp me ''role'' of
        Inl e \<Rightarrow> Inl e
      | Inr role \<Rightarrow>
          let st1 = (if role \<noteq> Str ''patient'' then st\<lparr>location := Some ''/login.html''\<rparr> else st)
          in (case getProp me ''user_id'' of
                Inl e \<Rightarrow> Inl e
              | Inr uid \<Rightarrow> Inr (Undefined, st1\<lparr>currentUserId := uid\<rparr>)))"

section \<open>The patient dashboard\<close>

text \<open>\<open>v.map(d => `<li>${d}</li>`).join("")\<close>: only an array has \<open>map\<close>.\<close>

definition itemsMarkup :: "host \<Rightarrow> jsval \<Rightarrow> error + string" where
  "itemsMarkup h v =
     (case v of
        Arr xs \<Rightarrow> Inr (concat (map (\<lambda>d. ''<li>'' @ ToString h d @ ''</li>'') xs))
      | _ \<Rightarrow> Inl TypeError)"

definition itemsOf :: "host \<Rightarrow> jsval \<Rightarrow> string \<Rightarrow> error + string" where
  "itemsOf h data k = (case getProp data k of Inl e \<Rightarrow> Inl e | Inr v \<Rightarrow> itemsMarkup h v)"

text \<open>
  The template \<open>getRecommendation\<close> assigns to the recommendation result, with its four
  interpolations as arguments.
\<close>

definition cardMarkup :: "string \<Rightarrow> string \<Rightarrow> string \<Rightarrow> string \<Rightarrow> string" where
  \<open>cardMarkup b d e g =
     nl @ ''      <div class="card">'' @ nl
     @ ''        <h3 style="margin-top:0;">Your Recommendation</h3>'' @ nl
     @ ''        <p><strong>BMI:</strong> '' @ b @ ''</p>'' @ nl
     @ nl
     @ ''        <div class="section">'' @ nl
     @ ''          <strong>'' @ [CHR 0xF0, CHR 0x9F, CHR 0xA5, CHR 0x97] @ '' Diet</strong>'' @ nl
     @ ''          <ul>'' @ d @ ''</ul>'' @ nl
     @ ''        </div>'' @ nl
     @ nl
     @ ''        <div class="section">'' @ nl
     @ ''          <strong>'' @ [CHR 0xF0, CHR 0x9F, CHR 0x8F, CHR 0x83] @ '' Exercise</strong>'' @ nl
     @ ''          <ul>'' @ e @ ''</ul>'' @ nl
     @ ''        </div>'' @ nl
     @ nl
     @ ''        <div class="section">'' @ nl
     @ ''          <strong>'' @ [CHR 0xF0, CHR 0x9F, CHR 0xA7, CHR 0xA0] @ '' General Advice</strong>'' @ nl
     @ ''          <ul>'' @ g @ ''</ul>'' @ nl
     @ ''        </div>'' @ nl
     @ nl
     @ ''        <div class="feedback">'' @ nl
     @ ''          <p><strong>Was this helpful?</strong></p>'' @ nl
     @ ''          <button onclick="sendFeedback(5)">'' @ [CHR 0xF0, CHR 0x9F, CHR 0x91, CHR 0x8D]
         @ '' Yes</button>'' @ nl
     @ ''          <button onclick="sendFeedback(1)">'' @ [CHR 0xF0, CHR 0x9F, CHR 0x91, CHR 0x8E]
         @ '' No</button>'' @ nl
     @ ''        </div>'' @ nl
     @ ''      </div>'' @ nl
     @ ''    ''\<close>

text \<open>
  The markup for the parsed body \<open>data\<close> of \<open>/recommend\<close>: the interpolations are evaluated in
  order, and the first one that throws ends the function in its \<open>catch\<close>.
\<close>

definition recommendationCard :: "host \<Rightarrow> jsval \<Rightarrow> error + string" where
  "recommendationCard h data =
     (case getProp data ''bmi'' of Inl e \<Rightarrow> Inl e | Inr b \<Rightarrow>
      case itemsOf h data ''diet'' of Inl e \<Rightarrow> Inl e | Inr d \<Rightarrow>
      case itemsOf h data ''exercise'' of Inl e \<Rightarrow> Inl e | Inr e \<Rightarrow>
      case itemsOf h data ''general'' of Inl e \<Rightarrow> Inl e | Inr g \<Rightarrow>
      Inr (cardMarkup (ToString h b) d e g))"

text \<open>
  \<open>drawChart(id, type, data, label)\<close>. The labels and the series come from an array by
  position, from any other value through \<open>Object.keys\<close> and \<open>Object.values\<close>, which throw on
  \<open>null\<close> and \<open>undefined\<close>; an object is kept in the order its properties enumerate, and a
  string has one property per code unit.
\<close>

definition chartData :: "host \<Rightarrow> jsval \<Rightarrow> error + (string list \<times> jsval list)" where
  "chartData h data =
     (case data of
        Arr xs \<Rightarrow> Inr (map (\<lambda>i. ''Rec '' @ showNat (i + 1)) [0..<length xs], xs)
      | Undefined \<Rightarrow> Inl TypeError
      | Null \<Rightarrow> Inl TypeError
      | Obj kvs \<Rightarrow> Inr (map fst kvs, map snd kvs)
      | Str s \<Rightarrow> Inr (map showNat [0..<length (codeUnits h s)], map Str (codeUnits h s))
      | _ \<Rightarrow> Inr ([], []))"

record patient_page =
  charts :: "string \<Rightarrow> nat option"
  plib :: registry

definition drawChart ::
  "host \<Rightarrow> string \<Rightarrow> string \<Rightarrow> jsval \<Rightarrow> string \<Rightarrow> patient_page
     \<Rightarrow> error option \<times> patient_page" where
  "drawChart h ident ctype data label pp =
     (let r1 = destroyIfSet (charts pp ident) (plib pp) in
      case chartData h data of
        Inl e \<Rightarrow> (Some e, pp\<lparr>plib := r1\<rparr>)
      | Inr (lbls, vals) \<Rightarrow>
          let (i, r2) = newChart \<lparr>canvas = ident, kind = ctype, labels = lbls,
                                   seriesLabel = label, series = vals\<rparr> r1
          in (None, pp\<lparr>charts := (charts pp)(ident \<mapsto> i), plib := r2\<rparr>))"

fun drawChartAll ::
  "host \<Rightarrow> (string \<times> string \<times> jsval \<times> string) list \<Rightarrow> patient_page \<Rightarrow> patient_page" where
  "drawChartAll h [] pp = pp"
| "drawChartAll h ((ident, ctype, data, label) # cs) pp =
     drawChartAll h cs (snd (drawChart h ident ctype data label pp))"

section \<open>The legacy history page\<close>

text \<open>\<open>rec.k.join(", ")\<close>: only an array has \<open>join\<close>.\<close>

definition joinField :: "host \<Rightarrow> jsval \<Rightarrow> string \<Rightarrow> error + string" where
  "joinField h rec k =
     (case getProp rec k of
        Inl e \<Rightarrow> Inl e
      | Inr (Arr xs) \<Rightarrow> Inr (arrayJoin h '', '' xs)
      | Inr _ \<Rightarrow> Inl TypeError)"

definition historyRowMarkup :: "string \<Rightarrow> string \<Rightarrow> string \<Rightarrow> string \<Rightarrow> string" where
  "historyRowMarkup b d e g =
     ''<tr>'' @ nl
     @ ''                    <td>'' @ b @ ''</td>'' @ nl
     @ ''                    <td>'' @ d @ ''</td>'' @ nl
     @ ''                    <td>'' @ e @ ''</td>'' @ nl
     @ ''                    <td>'' @ g @ ''</td>'' @ nl
     @ ''                </tr>''"

definition historyRow :: "host \<Rightarrow> jsval \<Rightarrow> error + string" where
  "historyRow h rec =
     (case getProp rec ''bmi'' of Inl e \<Rightarrow> Inl e | Inr b \<Rightarrow>
      case joinField h rec ''diet'' of Inl e \<Rightarrow> Inl e | Inr d \<Rightarrow>
      case joinField h rec ''exercise'' of Inl e \<Rightarrow> Inl e | Inr e \<Rightarrow>
      case joinField h rec ''general'' of Inl e \<Rightarrow> Inl e | Inr g \<Rightarrow>
      Inr (historyRowMarkup (ToString h b) d e g))"

fun historyRows :: "host \<Rightarrow> jsval list \<Rightarrow> string \<Rightarrow> error + string" where
  "historyRows h [] html = Inr html"
| "historyRows h (rec # recs) html =
     (case historyRow h rec of Inl e \<Rightarrow> Inl e | Inr r \<Rightarrow> historyRows h recs (html @ r))"

fun bmisOf :: "jsval list \<Rightarrow> error + jsval list" where
  "bmisOf [] = Inr []"
| "bmisOf (rec # recs) =
     (case getProp rec ''bmi'' of
        Inl e \<Rightarrow> Inl e
      | Inr b \<Rightarrow> (case bmisOf recs of Inl e \<Rightarrow> Inl e | Inr bs \<Rightarrow> Inr (b # bs)))"

record history_page =
  historyTable :: string
  historyCanvas :: bool
  historyChart :: "nat option"
  hlib :: registry

text \<open>
  The handler of \<open>loadHistory\<close> for the parsed body \<open>data\<close> of \<open>/history\<close>. \<open>historyChart\<close> is the
  legacy script's own \<open>bmiChartInstance\<close>. Whatever is thrown is caught and logged by the
  \<open>catch\<close> at the end of the chain, and the page stays as it was at that point.
\<close>

definition historyLoaded :: "host \<Rightarrow> jsval \<Rightarrow> history_page \<Rightarrow> history_page" where
  "historyLoaded h data hp =
     (case data of
        Arr recs \<Rightarrow>
          (case historyRows h recs
                  (''<h3>Last 3 Recommendations</h3>''
                   @ ''<table><tr><th>BMI</th><th>Diet</th><th>Exercise</th><th>General Advice</th></tr>'') of
             Inl e \<Rightarrow> hp
           | Inr html \<Rightarrow>
               let hp1 = hp\<lparr>historyTable := html @ ''</table>''\<rparr>;
                   lbls = map (\<lambda>i. ''Rec '' @ showNat (i + 1)) [0..<length recs]
               in (case bmisOf recs of
                     Inl e \<Rightarrow> hp1
                   | Inr bmis \<Rightarrow>
                       if \<not> historyCanvas hp1 then hp1
                       else
                         let r1 = destroyIfSet (historyChart hp1) (hlib hp1);
                             (i, r2) = newChart \<lparr>canvas = ''bmiChart'', kind = ''line'',
                                                  labels = rev lbls, seriesLabel = ''BMI Trend'',
                                                  series = rev bmis\<rparr> r1
                         in hp1\<lparr>historyChart := Some i, hlib := r2\<rparr>))
      | _ \<Rightarrow> hp)"

definition loadHistory :: "host \<Rightarrow> response \<Rightarrow> history_page \<Rightarrow> history_page" where
  "loadHistory h r hp =
     (case r of
        NoResponse m \<Rightarrow> hp
      | Response status body \<Rightarrow> (case body of Inl m \<Rightarrow> hp | Inr data \<Rightarrow> historyLoaded h data hp))"

fun loadHistoryAll :: "host \<Rightarrow> response list \<Rightarrow> history_page \<Rightarrow> history_page" where
  "loadHistoryAll h [] hp = hp"
| "loadHistoryAll h (r # rs) hp = loadHistoryAll h rs (loadHistory h r hp)"

section \<open>The specification's vocabulary\<close>

text \<open>
  \<open>n >= k\<close> and \<open>n < k\<close> for a bound \<open>k\<close>, read on the values themselves: \<open>NaN\<close> is neither, and
  an infinity lies on its side of every bound.
\<close>

definition isAtLeast :: "rat \<Rightarrow> jsnum \<Rightarrow> bool" where
  "isAtLeast k n = (case n of Fin x \<Rightarrow> k \<le> x | PosInf \<Rightarrow> True | _ \<Rightarrow> False)"

definition isBelow :: "rat \<Rightarrow> jsnum \<Rightarrow> bool" where
  "isBelow k n = (case n of Fin x \<Rightarrow> x < k | NegInf \<Rightarrow> True | _ \<Rightarrow> False)"

text \<open>
  The band predicates as the specification words them: BMI low below 25, medium from 25 up to
  but excluding 30, high from 30; feedback low below 3, high from 4, both only for a feedback
  that is present. Any other selection (\<open>all\<close>, or \<open>medium\<close> for feedback) admits every record.
\<close>

definition bmiBand :: "string \<Rightarrow> jsnum \<Rightarrow> bool" where
  "bmiBand f n =
     (if f = ''low'' then isBelow 25 n
      else if f = ''medium'' then isAtLeast 25 n \<and> isBelow 30 n
      else if f = ''high'' then isAtLeast 30 n
      else True)"

definition feedbackBand :: "host \<Rightarrow> string \<Rightarrow> jsval \<Rightarrow> bool" where
  "feedbackBand h f v =
     (if f = ''low'' then \<not> nullish v \<and> isBelow 3 (Number h v)
      else if f = ''high'' then \<not> nullish v \<and> isAtLeast 4 (Number h v)
      else True)"

text \<open>The two risk conditions, and the labels the specification has synthesized for them.\<close>

definition highBmi :: "host \<Rightarrow> jsrecord \<Rightarrow> bool" where
  "highBmi h p = isAtLeast 30 (Number h (bmi p))"

definition lowFeedback :: "host \<Rightarrow> jsrecord \<Rightarrow> bool" where
  "lowFeedback h p = (\<not> nullish (feedback p) \<and> isBelow 3 (Number h (feedback p)))"

definition synthesized :: "host \<Rightarrow> jsrecord \<Rightarrow> string list" where
  "synthesized h p =
     (if highBmi h p then [highBmiLabel] else []) @ (if lowFeedback h p then [lowFeedbackLabel] else [])"

text \<open>
  The list cell as the specification words it: the muted dash of an empty cell, the inline
  list, and the disclosure with its count label and its full list. \<open>spec_listCell\<close> applies them to the list as given: the first
  three entries inline and, when there are more than three, the disclosure labelled with the
  length of the list.
\<close>

text \<open>
  The risk cell as the specification words it, for a record without explicit risks: the
  entries \<open>High BMI\<close> and \<open>Low Feedback\<close> under their conditions, joined by a bar, and \<open>None\<close>
  when there is none.
\<close>

definition spec_riskEntries :: "host \<Rightarrow> jsrecord \<Rightarrow> string list" where
  "spec_riskEntries h p =
     (if highBmi h p then [''High BMI''] else []) @ (if lowFeedback h p then [''Low Feedback''] else [])"

definition spec_riskCell :: "host \<Rightarrow> jsrecord \<Rightarrow> string" where
  "spec_riskCell h p =
     (if spec_riskEntries h p = [] then ''None'' else join '' | '' (spec_riskEntries h p))"

definition cellEmpty :: string where
  \<open>cellEmpty = ''<span class="muted">'' @ [CHR 0xE2, CHR 0x80, CHR 0x94] @ ''</span>''\<close>

definition cellInline :: "host \<Rightarrow> jsval list \<Rightarrow> string" where
  \<open>cellInline h xs = ''<ul class="cell-list">'' @ listItems h xs @ ''</ul>''\<close>

definition cellDisclosure :: "host \<Rightarrow> nat \<Rightarrow> jsval list \<Rightarrow> string" where
  \<open>cellDisclosure h n xs =
     nl @ ''    <details class="cell-details">'' @ nl
     @ ''      <summary>Show all ('' @ showNat n @ '')</summary>'' @ nl
     @ ''      '' @ cellInline h xs @ nl
     @ ''    </details>'' @ nl
     @ ''  ''\<close>

definition spec_listCell :: "host \<Rightarrow> jsval list \<Rightarrow> string" where
  "spec_listCell h items =
     (if 3 < length items then cellInline h (take 3 items) @ cellDisclosure h (length items) items
      else cellInline h items)"

section \<open>Auxiliary notions for the proofs\<close>

text \<open>What rendering a row leaves of a record.\<close>

definition settle :: "host \<Rightarrow> jsrecord \<Rightarrow> jsrecord" where
  "settle h p = snd (rowRisks h p)"

text \<open>
  The chart invariant: live instances have distinct identities below the next one, and each
  is the instance its canvas's variable holds. \<open>hs\<close> gives the variable for a canvas.
\<close>

definition wellTracked :: "(string \<Rightarrow> nat option) \<Rightarrow> registry \<Rightarrow> bool" where
  "wellTracked hs r =
     (distinct (map fst (live r))
      \<and> (\<forall>(i, c) \<in> set (live r). i < nextId r \<and> hs (canvas c) = Some i))"

definition canvasFree :: "string \<Rightarrow> registry \<Rightarrow> bool" where
  "canvasFree cv r = (\<forall>(i, c) \<in> set (live r). canvas c \<noteq> cv)"

definition clinicianHandles :: "page \<Rightarrow> string \<Rightarrow> nat option" where
  "clinicianHandles pg cv =
     (if cv = ''bmiChart'' then bmiChartInstance pg
      else if cv = ''feedbackChart'' then feedbackChartInstance pg
      else None)"

definition historyHandles :: "history_page \<Rightarrow> string \<Rightarrow> nat option" where
  "historyHandles hp cv = (if cv = ''bmiChart'' then historyChart hp else None)"

section \<open>Concrete inputs\<close>

definition sampleHost :: host where
  "sampleHost = \<lparr>stringToNumber = (\<lambda>s. NaN), numberToString = (\<lambda>n. ''0''),
     toFixed = (\<lambda>n d. ''0''), codeUnits = (\<lambda>s. map (\<lambda>c. [c]) s)\<rparr>"

definition samplePatient :: jsrecord where
  "samplePatient = \<lparr>name = Str ''Ann'', bmi = Num (Fin 31),
     diet = Arr [Str ''a'', Str ''b'', Str ''c'', Str ''d'', Str ''''],
     exercise = Arr [], general = Undefined, feedback = Num (Fin 2), risks = Arr [],
     ai_explanation = Undefined\<rparr>"

text \<open>A record with a high BMI and nothing else, and one that carries explicit risks.\<close>

definition sampleHighBmi :: jsrecord where
  "sampleHighBmi = \<lparr>name = Str ''Bo'', bmi = Num (Fin 31), diet = Undefined, exercise = Undefined,
     general = Undefined, feedback = Undefined, risks = Undefined, ai_explanation = Undefined\<rparr>"

definition sampleExplicit :: jsrecord where
  "sampleExplicit = samplePatient\<lparr>risks := Arr [Str ''Smoker'', Str ''<40'']\<rparr>"

definition sampleStore :: store where
  "sampleStore = (\<lambda>a. samplePatient\<lparr>bmi := Num (Fin 22), feedback := Null, risks := Undefined\<rparr>)
                  (0 := samplePatient)"

definition emptyRegistry :: registry where
  "emptyRegistry = \<lparr>live = [], nextId = 0\<rparr>"

definition samplePage :: page where
  "samplePage = \<lparr>store = sampleStore, allPatients = [0, 1], patientsTable = [], statusMsg = None,
     bmiCanvas = True, fbCanvas = True, bmiChartInstance = None, feedbackChartInstance = None,
     lib = emptyRegistry\<rparr>"

definition sampleHistoryPage :: history_page where
  "sampleHistoryPage = \<lparr>historyTable = [], historyCanvas = True, historyChart = None,
     hlib = emptyRegistry\<rparr>"

definition samplePatientPage :: patient_page where
  "samplePatientPage = \<lparr>charts = (\<lambda>c. None), plib = emptyRegistry\<rparr>"

definition sampleSession :: session where
  "sampleSession = \<lparr>location = None, welcomeText = None, currentUserId = Undefined\<rparr>"

definition injected :: string where
  "injected = ''<img src=x onerror=alert(1)>''"

text \<open>A network on which every request is answered with status 503.\<close>

definition unavailable :: "nat \<Rightarrow> response" where
  "unavailable i = Response 503 (Inr Null)"

section \<open>Numbers and escaping\<close>

lemma num_ge_Fin: "num_ge n (Fin k) = isAtLeast k n"
  by (cases n) (auto simp: num_ge_def isAtLeast_def)

lemma num_lt_Fin: "num_lt n (Fin k) = isBelow k n"
  by (cases n) (auto simp: isBelow_def)

lemma isAtLeast_NaN: "isAtLeast k n \<Longrightarrow> n \<noteq> NaN"
  by (auto simp: isAtLeast_def)

text \<open>The clinician renderer's escaping leaves no markup delimiter and no quote in a field.\<close>

lemma escapeChar_plain: "c \<in> set (escapeChar d) \<Longrightarrow> c \<notin> {CHR ''<'', CHR ''>'', CHR 0x22, CHR 0x27}"
  by (auto simp: escapeChar_def split: if_splits)

lemma escapeHtml_plain:
  "c \<in> set (escapeHtml h v) \<Longrightarrow> c \<notin> {CHR ''<'', CHR ''>'', CHR 0x22, CHR 0x27}"
  unfolding escapeHtml_def using escapeChar_plain by (auto simp del: insert_iff)

section \<open>Escaping across the render paths\<close>

text \<open>
  C1 (every free-text field is escaped on every render path, the patient dashboard's
  recommendation card and the legacy history table included). The clinician renderer escapes
  a list entry; the recommendation card and the legacy history row insert the same entry as
  it arrived, so an entry that is markup stays markup.
\<close>

theorem recommendationCard_unescaped:
  "recommendationCard h (Obj [(''bmi'', Num (Fin 31)), (''diet'', Arr [Str injected]),
                              (''exercise'', Arr []), (''general'', Arr [])])
     = Inr (cardMarkup (numberToString h (Fin 31)) (''<li>'' @ injected @ ''</li>'') [] [])
   \<and> historyRow h (Obj [(''bmi'', Num (Fin 31)), (''diet'', Arr [Str injected]),
                        (''exercise'', Arr []), (''general'', Arr [])])
     = Inr (historyRowMarkup (numberToString h (Fin 31)) injected [] [])
   \<and> listItems h [Str injected] = ''<li>&lt;img src=x onerror=alert(1)&gt;</li>''"
  by (simp add: recommendationCard_def historyRow_def getProp_def itemsOf_def itemsMarkup_def
      joinField_def arrayJoin_def nullish_def listItems_def escapeHtml_def escapeChar_def injected_def)

section \<open>The resilient fetcher\<close>

lemma fetchLoop_fail:
  "i < tries \<Longrightarrow> attempt url (net i) = Inl e \<Longrightarrow>
   fetchLoop net url tries i le tr
     = fetchLoop net url tries (Suc i) (Some e) (tr @ [Request url, Sleep (250 * (i + 1))])"
  by (subst fetchLoop.simps) simp

lemma fetchLoop_ok:
  "i < tries \<Longrightarrow> attempt url (net i) = Inr v \<Longrightarrow>
   fetchLoop net url tries i le tr = (Inr v, tr @ [Request url])"
  by (subst fetchLoop.simps) simp

lemma fetchLoop_done:
  "\<not> i < tries \<Longrightarrow>
   fetchLoop net url tries i le tr = (Inl (case le of None \<Rightarrow> NullThrown | Some e \<Rightarrow> e), tr)"
  by (subst fetchLoop.simps) simp

text \<open>When every attempt fails, every attempt is followed by its timer, the last one too.\<close>

lemma fetchLoop_all_fail:
  assumes "\<And>j. i \<le> j \<Longrightarrow> j < tries \<Longrightarrow> attempt url (net j) = Inl (e j)"
  shows "fetchLoop net url tries i le tr =
           (Inl (if i < tries then e (tries - 1) else (case le of None \<Rightarrow> NullThrown | Some x \<Rightarrow> x)),
            tr @ concat (map (\<lambda>j. [Request url, Sleep (250 * (j + 1))]) [i..<tries]))"
  using assms
proof (induction "tries - i" arbitrary: i le tr)
  case 0
  then show ?case by (simp add: fetchLoop_done)
next
  case (Suc n)
  then have lt: "i < tries" by simp
  have f: "attempt url (net i) = Inl (e i)" using Suc.prems lt by simp
  have n: "n = tries - Suc i" using Suc.hyps(2) by simp
  have ih: "fetchLoop net url tries (Suc i) (Some (e i)) (tr @ [Request url, Sleep (250 * (i + 1))]) =
           (Inl (if Suc i < tries then e (tries - 1) else e i),
            (tr @ [Request url, Sleep (250 * (i + 1))])
             @ concat (map (\<lambda>j. [Request url, Sleep (250 * (j + 1))]) [Suc i..<tries]))"
    using Suc.hyps(1) [OF n, of "Some (e i)" "tr @ [Request url, Sleep (250 * (i + 1))]"] Suc.prems
    by simp
  have last: "e i = e (tries - 1)" if "\<not> Suc i < tries"
  proof -
    have "i = tries - 1" using lt that by arith
    then show ?thesis by simp
  qed
  have up: "[i..<tries] = i # [Suc i..<tries]"
    using lt by (rule upt_conv_Cons)
  have "fetchLoop net url tries i le tr
          = fetchLoop net url tries (Suc i) (Some (e i)) (tr @ [Request url, Sleep (250 * (i + 1))])"
    using lt f by (rule fetchLoop_fail)
  also note ih
  finally show ?case
    using lt last by (simp only: up) auto
qed

lemma fetchWithRetry_all_fail:
  assumes "\<And>j. j < tries \<Longrightarrow> attempt url (net j) = Inl (e j)" "0 < tries"
  shows "fetchWithRetry net url tries =
           (Inl (e (tries - 1)),
            concat (map (\<lambda>j. [Request url, Sleep (250 * (j + 1))]) [0..<tries]))"
  unfolding fetchWithRetry_def using fetchLoop_all_fail [of 0 tries url net e None "[]"] assms
  by simp

text \<open>Two failures and a success on the third attempt: the payload, after waits of 250 and 500.\<close>

lemma fetchWithRetry_third_success:
  assumes "attempt url (net 0) = Inl e0" "attempt url (net 1) = Inl e1" "attempt url (net 2) = Inr v"
  shows "fetchWithRetry net url 3 = (Inr v, [Request url, Sleep 250, Request url, Sleep 500, Request url])"
proof -
  have "fetchWithRetry net url 3 = fetchLoop net url 3 1 (Some e0) [Request url, Sleep 250]"
    unfolding fetchWithRetry_def using fetchLoop_fail [of 0 3 url net e0 None "[]"] assms(1) by simp
  also have "\<dots> = fetchLoop net url 3 2 (Some e1) [Request url, Sleep 250, Request url, Sleep 500]"
    using fetchLoop_fail [of 1 3 url net e1 "Some e0" "[Request url, Sleep 250]"] assms(2)
    by (simp add: numeral_2_eq_2)
  also have "\<dots> = (Inr v, [Request url, Sleep 250, Request url, Sleep 500, Request url])"
    using fetchLoop_ok [of 2 3 url net v "Some e1"] assms(3) by simp
  finally show ?thesis .
qed

text \<open>
  C2 (two failures then success returns the payload; with every attempt failing and three
  attempts allowed, the last error is raised after exactly three attempts, with waits of 250
  and 500 between them and no further wait after the final attempt). On a network that
  answers every request with status 503 the function makes three requests and raises the
  status error of the last, but it has awaited a third timer, of 750, before raising.
\<close>

theorem fetchWithRetry_exhausted_trace:
  "fetchWithRetry unavailable ''/clinician-data'' 3
     = (Inl (StatusError ''/clinician-data'' 503),
        [Request ''/clinician-data'', Sleep 250,
         Request ''/clinician-data'', Sleep 500,
         Request ''/clinician-data'', Sleep 750])"
  by (simp add: fetchWithRetry_def fetchLoop.simps attempt_def ok_def unavailable_def)

section \<open>The session guards\<close>

text \<open>The clinician guard on an identity object: a boolean, with the redirect or the header.\<close>

lemma requireClinician_contract:
  "requireClinicianAndSetHeader h w (Obj kvs) st =
     (if map_of kvs ''role'' = Some (Str ''clinician'')
      then Inr (Bool True,
                if w then st\<lparr>welcomeText := Some (''Welcome, '' @
                       (case map_of kvs ''name'' of
                          None \<Rightarrow> ''Clinician''
                        | Some nm \<Rightarrow> ToString h (if truthy nm then nm else Str ''Clinician'')))\<rparr>
                else st)
      else Inr (Bool False, st\<lparr>location := Some ''/clinician_login.html''\<rparr>))"
  by (auto simp: requireClinicianAndSetHeader_def getProp_def split: option.splits)

text \<open>
  C3 (the guard returns false with a redirect on a role mismatch and true on a match, for the
  clinician guard and for the patient guard). The patient guard redirects on a mismatch, but
  it has no return value in either case: it returns \<open>undefined\<close> for a clinician's identity and
  for a patient's, and on the mismatch it still goes on to store the user id.
\<close>

theorem mustBePatient_returns_undefined:
  "mustBePatient (Obj [(''role'', Str ''clinician''), (''user_id'', Num (Fin 7))]) sampleSession
     = Inr (Undefined, sampleSession\<lparr>location := Some ''/login.html'', currentUserId := Num (Fin 7)\<rparr>)
   \<and> mustBePatient (Obj [(''role'', Str ''patient''), (''user_id'', Num (Fin 7))]) sampleSession
     = Inr (Undefined, sampleSession\<lparr>currentUserId := Num (Fin 7)\<rparr>)"
  by (simp add: mustBePatient_def getProp_def Let_def)

section \<open>List cells\<close>

text \<open>
  The claim of C6 as it is worded fails on a list with an empty entry: of the five entries
  below the cell counts four, where the specification's cell shows the true length five.
\<close>

theorem renderListCell_count_counterexample:
  "length [Str ''a'', Str ''b'', Str ''c'', Str ''d'', Str ''''] = 5
   \<and> renderListCell sampleHost (Arr [Str ''a'', Str ''b'', Str ''c'', Str ''d'', Str ''''])
       = cellInline sampleHost [Str ''a'', Str ''b'', Str ''c'']
         @ cellDisclosure sampleHost 4 [Str ''a'', Str ''b'', Str ''c'', Str ''d'']
   \<and> renderListCell sampleHost (Arr [Str ''a'', Str ''b'', Str ''c'', Str ''d'', Str ''''])
       \<noteq> spec_listCell sampleHost [Str ''a'', Str ''b'', Str ''c'', Str ''d'', Str '''']"
  by (simp add: renderListCell_def spec_listCell_def cellInline_def cellDisclosure_def Let_def
      listItems_def escapeHtml_def escapeChar_def nullish_def nl_def showNat.simps)

text \<open>
  C6, amended: a list cell discards the falsy entries of its list first. When more than three
  entries remain, the cell shows exactly the first three of them inline and a disclosure that
  lists all of them, labelled with their number; when one to three remain, it shows them
  inline and no disclosure; when none remains, it shows the dash of an empty cell.
\<close>

theorem renderListCell_truthy:
  "(3 < length (filter truthy items) \<longrightarrow>
      renderListCell h (Arr items) =
        cellInline h (take 3 (filter truthy items))
        @ cellDisclosure h (length (filter truthy items)) (filter truthy items))
   \<and> (0 < length (filter truthy items) \<and> length (filter truthy items) \<le> 3 \<longrightarrow>
      renderListCell h (Arr items) = cellInline h (filter truthy items))
   \<and> (length (filter truthy items) = 0 \<longrightarrow> renderListCell h (Arr items) = cellEmpty)"
  by (simp add: renderListCell_def cellInline_def cellDisclosure_def cellEmpty_def Let_def)

theorem renderListCell_truthy_witness:
  "renderListCell sampleHost (Arr [Str ''a'', Str ''b'', Str ''c'', Str ''d'', Str ''''])
     = cellInline sampleHost [Str ''a'', Str ''b'', Str ''c'']
       @ cellDisclosure sampleHost 4 [Str ''a'', Str ''b'', Str ''c'', Str ''d'']
   \<and> renderListCell sampleHost (Arr [Str ''a'', Str '''', Str ''b'', Str ''c''])
     = cellInline sampleHost [Str ''a'', Str ''b'', Str ''c'']
   \<and> renderListCell sampleHost (Arr [Str '''', Null]) = cellEmpty"
  using renderListCell_truthy [of "[Str ''a'', Str ''b'', Str ''c'', Str ''d'', Str '''']" sampleHost]
    renderListCell_truthy [of "[Str ''a'', Str '''', Str ''b'', Str ''c'']" sampleHost]
    renderListCell_truthy [of "[Str '''', Null]" sampleHost]
  by (simp add: eval_nat_numeral)

section \<open>Rows and their risks\<close>

lemma pushed_cong: "bmi q = bmi p \<Longrightarrow> feedback q = feedback p \<Longrightarrow> pushed h q = pushed h p"
  by (simp add: pushed_def fbOf_def)

lemma pushed_risks_upd: "pushed h (p\<lparr>risks := r\<rparr>) = pushed h p"
  by (rule pushed_cong) simp_all

lemma pushed_synthesized: "pushed h p = map Str (synthesized h p)"
  by (auto simp: pushed_def synthesized_def highBmi_def lowFeedback_def fbOf_def nullish_def
      num_ge_Fin num_lt_Fin dest: isAtLeast_NaN)

lemma settle_fields:
  "name (settle h p) = name p" "bmi (settle h p) = bmi p" "diet (settle h p) = diet p"
  "exercise (settle h p) = exercise p" "general (settle h p) = general p"
  "feedback (settle h p) = feedback p" "ai_explanation (settle h p) = ai_explanation p"
  by (auto simp: settle_def rowRisks_def split: jsval.splits)

lemma settle_empty: "risks p = Arr [] \<Longrightarrow> settle h p = p\<lparr>risks := Arr (map Str (synthesized h p))\<rparr>"
  by (simp add: settle_def rowRisks_def pushed_synthesized)

lemma settle_not_array: "\<forall>xs. risks p \<noteq> Arr xs \<Longrightarrow> settle h p = p"
  by (cases "risks p") (simp_all add: settle_def rowRisks_def)

lemma rowRisks_settle: "rowRisks h (settle h p) = (fst (rowRisks h p), settle h p)"
proof (cases "risks p")
  case (Arr xs)
  then show ?thesis
    by (cases xs) (simp_all add: settle_def rowRisks_def pushed_risks_upd)
qed (simp_all add: settle_def rowRisks_def)

lemma settle_idem: "settle h (settle h p) = settle h p"
  using rowRisks_settle [of h p] by (simp add: settle_def)

lemma riskText_settle: "riskText h (settle h p) = riskText h p"
  by (simp add: riskText_def rowRisks_settle)

lemma fbOf_settle: "fbOf h (settle h p) = fbOf h p"
  by (simp add: fbOf_def settle_fields)

lemma rowHtml_settle: "rowHtml h (settle h p) = rowHtml h p"
  by (simp add: rowHtml_def riskCell_def settle_fields riskText_settle fbOf_settle)

lemma rowRisks_synth:
  "\<forall>x xs. risks p \<noteq> Arr (x # xs) \<Longrightarrow> fst (rowRisks h p) = map Str (synthesized h p)"
  by (cases "risks p") (auto simp: rowRisks_def pushed_synthesized neq_Nil_conv)

section \<open>The table\<close>

text \<open>The loop in closed form: each row is rendered from the record as it was before the
  call, and every record the rows refer to is left settled.\<close>

lemma renderRows_eq:
  "renderRows h rows (html, s) =
     (html @ concat (map (\<lambda>a. rowHtml h (s a)) rows),
      \<lambda>a. if a \<in> set rows then settle h (s a) else s a)"
proof (induction rows arbitrary: html s)
  case Nil
  show ?case by simp
next
  case (Cons a as)
  let ?s = "s(a := settle h (s a))"
  have m: "map (\<lambda>b. rowHtml h (?s b)) as = map (\<lambda>b. rowHtml h (s b)) as"
    by (rule map_cong) (simp_all add: rowHtml_settle)
  have st: "(\<lambda>b. if b \<in> set as then settle h (?s b) else ?s b)
          = (\<lambda>b. if b \<in> set (a # as) then settle h (s b) else s b)"
    by (rule ext) (simp add: settle_idem)
  have "renderRows h (a # as) (html, s) = renderRows h as (html @ rowHtml h (s a), ?s)"
    by (simp only: renderRows.simps settle_def)
  also have "\<dots> = ((html @ rowHtml h (s a)) @ concat (map (\<lambda>b. rowHtml h (?s b)) as),
                    \<lambda>b. if b \<in> set as then settle h (?s b) else ?s b)"
    by (rule Cons.IH)
  also have "\<dots> = (html @ concat (map (\<lambda>b. rowHtml h (s b)) (a # as)),
                    \<lambda>b. if b \<in> set (a # as) then settle h (s b) else s b)"
    by (simp only: m st) simp
  finally show ?case .
qed

lemma renderTable_store:
  "snd (renderTable h rows s) = (\<lambda>a. if a \<in> set rows then settle h (s a) else s a)"
  by (cases rows) (auto simp: renderTable_def renderRows_eq simp del: renderRows.simps)

lemma renderTable_html:
  "fst (renderTable h rows s) =
     (if rows = [] then ''<p style=\"color:#555;\">No data to display.</p>''
      else tableHead @ concat (map (\<lambda>a. rowHtml h (s a)) rows) @ ''</tbody></table>'')"
  by (cases rows) (auto simp: renderTable_def renderRows_eq simp del: renderRows.simps)

lemma renderTable_html_cong:
  assumes "\<And>a. a \<in> set rows \<Longrightarrow> rowHtml h (s' a) = rowHtml h (s a)"
  shows "fst (renderTable h rows s') = fst (renderTable h rows s)"
proof -
  have "map (\<lambda>a. rowHtml h (s' a)) rows = map (\<lambda>a. rowHtml h (s a)) rows"
    by (rule map_cong) (simp_all add: assms)
  then show ?thesis by (simp only: renderTable_html)
qed

text \<open>
  C7 (\<open>renderTable\<close> is idempotent). Rendering the same rows a second time, on the store the
  first call left behind, yields the same markup as the first call, and leaves that store as
  it is; this includes the records whose risk list the first call synthesized and pushed.
\<close>

theorem renderTable_idempotent:
  "fst (renderTable h rows (snd (renderTable h rows s))) = fst (renderTable h rows s)
   \<and> snd (renderTable h rows (snd (renderTable h rows s))) = snd (renderTable h rows s)"
proof
  show "fst (renderTable h rows (snd (renderTable h rows s))) = fst (renderTable h rows s)"
    by (rule renderTable_html_cong) (simp add: renderTable_store rowHtml_settle)
  show "snd (renderTable h rows (snd (renderTable h rows s))) = snd (renderTable h rows s)"
    by (rule ext) (simp add: renderTable_store settle_idem)
qed

theorem renderTable_idempotent_witness:
  "fst (renderTable sampleHost [0, 1] (snd (renderTable sampleHost [0, 1] sampleStore)))
     = fst (renderTable sampleHost [0, 1] sampleStore)"
  using renderTable_idempotent [of sampleHost "[0, 1]" sampleStore] by simp

section \<open>The risk cell\<close>

lemma renderTable_contains_row:
  assumes "a \<in> set rows"
  shows "\<exists>pre post. fst (renderTable h rows s) = pre @ rowHtml h (s a) @ post"
proof -
  obtain ys zs where r: "rows = ys @ a # zs" using assms by (auto dest: split_list)
  have "fst (renderTable h rows s)
          = (tableHead @ concat (map (\<lambda>b. rowHtml h (s b)) ys)) @ rowHtml h (s a)
            @ (concat (map (\<lambda>b. rowHtml h (s b)) zs) @ ''</tbody></table>'')"
    by (simp add: renderTable_html r)
  then show ?thesis by blast
qed

lemma riskCell_literal:
  "riskCell h p =
         (case risks p of
              Arr (x # xs) \<Rightarrow> escapeHtml h (Str (arrayJoin h '' | '' (x # xs)))
            | _ \<Rightarrow>
                if highBmi h p \<and> lowFeedback h p
                then [CHR 0xE2, CHR 0x9A, CHR 0xA0, CHR 0xEF, CHR 0xB8, CHR 0x8F] @ '' High BMI | ''
                     @ [CHR 0xE2, CHR 0x9A, CHR 0xA0, CHR 0xEF, CHR 0xB8, CHR 0x8F] @ '' Low Feedback''
                else if highBmi h p
                then [CHR 0xE2, CHR 0x9A, CHR 0xA0, CHR 0xEF, CHR 0xB8, CHR 0x8F] @ '' High BMI''
                else if lowFeedback h p
                then [CHR 0xE2, CHR 0x9A, CHR 0xA0, CHR 0xEF, CHR 0xB8, CHR 0x8F] @ '' Low Feedback''
                else ''None'')"
proof (cases "\<exists>x xs. risks p = Arr (x # xs)")
  case True
  then obtain x xs where "risks p = Arr (x # xs)" by blast
  then show ?thesis by (simp add: riskCell_def riskText_def rowRisks_def)
next
  case False
  then have a: "\<forall>x xs. risks p \<noteq> Arr (x # xs)" by blast
  have "riskCell h p =
          (if highBmi h p \<and> lowFeedback h p
           then [CHR 0xE2, CHR 0x9A, CHR 0xA0, CHR 0xEF, CHR 0xB8, CHR 0x8F] @ '' High BMI | '' @ [CHR 0xE2, CHR 0x9A, CHR 0xA0, CHR 0xEF, CHR 0xB8, CHR 0x8F] @ '' Low Feedback''
           else if highBmi h p then [CHR 0xE2, CHR 0x9A, CHR 0xA0, CHR 0xEF, CHR 0xB8, CHR 0x8F] @ '' High BMI''
           else if lowFeedback h p then [CHR 0xE2, CHR 0x9A, CHR 0xA0, CHR 0xEF, CHR 0xB8, CHR 0x8F] @ '' Low Feedback''
           else ''None'')"
    by (simp add: riskCell_def riskText_def rowRisks_synth [OF a] synthesized_def arrayJoin_def
        nullish_def escapeHtml_def escapeChar_def highBmiLabel_def lowFeedbackLabel_def
        warningSign_def)
  with a show ?thesis by (simp split: jsval.splits list.splits)
qed

text \<open>
  The claim of C5 as it is worded fails on a record with a BMI of 31, no feedback and no
  risks: the specification's cell reads \<open>High BMI\<close>, where the cell of the rendered row reads
  a warning sign, a space and \<open>High BMI\<close>.
\<close>

theorem riskCell_label_counterexample:
  \<open>risks sampleHighBmi = Undefined
   \<and> highBmi sampleHost sampleHighBmi
   \<and> spec_riskCell sampleHost sampleHighBmi = ''High BMI''
   \<and> riskCell sampleHost sampleHighBmi
       = [CHR 0xE2, CHR 0x9A, CHR 0xA0, CHR 0xEF, CHR 0xB8, CHR 0x8F] @ '' High BMI''
   \<and> riskCell sampleHost sampleHighBmi \<noteq> spec_riskCell sampleHost sampleHighBmi
   \<and> rowHtml sampleHost sampleHighBmi =
       nl @ ''      <tr>'' @ nl
       @ ''        <td class="patient-name"><strong>Bo</strong></td>'' @ nl
       @ ''        <td>0</td>'' @ nl
       @ ''        <td><span class="muted">'' @ [CHR 0xE2, CHR 0x80, CHR 0x94] @ ''</span></td>'' @ nl
       @ ''        <td><span class="muted">'' @ [CHR 0xE2, CHR 0x80, CHR 0x94] @ ''</span></td>'' @ nl
       @ ''        <td><span class="muted">'' @ [CHR 0xE2, CHR 0x80, CHR 0x94] @ ''</span></td>'' @ nl
       @ ''        <td>N/A</td>'' @ nl
       @ ''        <td>'' @ [CHR 0xE2, CHR 0x9A, CHR 0xA0, CHR 0xEF, CHR 0xB8, CHR 0x8F]
           @ '' High BMI</td>'' @ nl
       @ ''        <td class="ai-cell"><div class="ai-wrap"></div></td>'' @ nl
       @ ''      </tr>'' @ nl
       @ ''    ''\<close>
  by (simp add: sampleHighBmi_def sampleHost_def highBmi_def lowFeedback_def isAtLeast_def
      isBelow_def nullish_def spec_riskCell_def spec_riskEntries_def riskCell_def riskText_def
      rowRisks_def pushed_def fbOf_def num_ge_def arrayJoin_def escapeHtml_def escapeChar_def
      highBmiLabel_def lowFeedbackLabel_def warningSign_def rowHtml_def renderListCell_def nl_def)

text \<open>
  C5, amended: the entries are the source's, a warning sign and a space before the words
  \<open>High BMI\<close> and \<open>Low Feedback\<close>. In the row that \<open>renderTable\<close> renders for a record, the risk cell
  of a record without explicit risks (its \<open>risks\<close> is not a non-empty array) holds the first
  entry exactly when the BMI is at least 30 and the second exactly when the feedback is
  present and below 3, joined by a bar when both hold, and \<open>None\<close> when neither holds; the risk
  cell of a record with explicit risks holds those, joined by a bar and escaped, and nothing
  is synthesized: the row leaves the record as it was. Every row of the table is such a row.
\<close>

theorem rowHtml_riskCell:
  \<open>rowHtml h p =
     nl @ ''      <tr>'' @ nl
     @ ''        <td class="patient-name"><strong>''
         @ escapeHtml h (if truthy (name p) then name p else Str ''Unknown'') @ ''</strong></td>'' @ nl
     @ ''        <td>'' @ (if Number h (bmi p) = NaN then ''N/A'' else toFixed h (Number h (bmi p)) 2)
         @ ''</td>'' @ nl
     @ ''        <td>'' @ renderListCell h (diet p) @ ''</td>'' @ nl
     @ ''        <td>'' @ renderListCell h (exercise p) @ ''</td>'' @ nl
     @ ''        <td>'' @ renderListCell h (general p) @ ''</td>'' @ nl
     @ ''        <td>'' @ (case fbOf h p of None \<Rightarrow> ''N/A'' | Some fb \<Rightarrow> toFixed h fb 1 @ ''/5'')
         @ ''</td>'' @ nl
     @ ''        <td>''
         @ (case risks p of
              Arr (x # xs) \<Rightarrow> escapeHtml h (Str (arrayJoin h '' | '' (x # xs)))
            | _ \<Rightarrow>
                if highBmi h p \<and> lowFeedback h p
                then [CHR 0xE2, CHR 0x9A, CHR 0xA0, CHR 0xEF, CHR 0xB8, CHR 0x8F] @ '' High BMI | ''
                     @ [CHR 0xE2, CHR 0x9A, CHR 0xA0, CHR 0xEF, CHR 0xB8, CHR 0x8F] @ '' Low Feedback''
                else if highBmi h p
                then [CHR 0xE2, CHR 0x9A, CHR 0xA0, CHR 0xEF, CHR 0xB8, CHR 0x8F] @ '' High BMI''
                else if lowFeedback h p
                then [CHR 0xE2, CHR 0x9A, CHR 0xA0, CHR 0xEF, CHR 0xB8, CHR 0x8F] @ '' Low Feedback''
                else ''None'')
         @ ''</td>'' @ nl
     @ ''        <td class="ai-cell"><div class="ai-wrap">''
         @ escapeHtml h (if truthy (ai_explanation p) then ai_explanation p else Str [])
         @ ''</div></td>'' @ nl
     @ ''      </tr>'' @ nl
     @ ''    ''
   \<and> (a \<in> set rows \<longrightarrow> (\<exists>pre post. fst (renderTable h rows s) = pre @ rowHtml h (s a) @ post))
   \<and> (\<forall>x xs. risks p = Arr (x # xs) \<longrightarrow> snd (rowRisks h p) = p)
   \<and> (\<forall>x xs. risks (s a) = Arr (x # xs) \<longrightarrow> snd (renderTable h rows s) a = s a)\<close>
  apply (intro conjI)
  subgoal unfolding rowHtml_def riskCell_literal by (rule refl)
  subgoal by (blast intro: renderTable_contains_row)
  subgoal by (simp add: rowRisks_def)
  subgoal by (simp add: renderTable_store settle_def rowRisks_def)
  done

theorem rowHtml_riskCell_witness:
  \<open>rowHtml sampleHost samplePatient =
       nl @ ''      <tr>'' @ nl
       @ ''        <td class="patient-name"><strong>Ann</strong></td>'' @ nl
       @ ''        <td>0</td>'' @ nl
       @ ''        <td>'' @ cellInline sampleHost [Str ''a'', Str ''b'', Str ''c'']
           @ cellDisclosure sampleHost 4 [Str ''a'', Str ''b'', Str ''c'', Str ''d''] @ ''</td>'' @ nl
       @ ''        <td>'' @ cellEmpty @ ''</td>'' @ nl
       @ ''        <td>'' @ cellEmpty @ ''</td>'' @ nl
       @ ''        <td>0/5</td>'' @ nl
       @ ''        <td>'' @ [CHR 0xE2, CHR 0x9A, CHR 0xA0, CHR 0xEF, CHR 0xB8, CHR 0x8F] @ '' High BMI | ''
           @ [CHR 0xE2, CHR 0x9A, CHR 0xA0, CHR 0xEF, CHR 0xB8, CHR 0x8F] @ '' Low Feedback</td>'' @ nl
       @ ''        <td class="ai-cell"><div class="ai-wrap"></div></td>'' @ nl
       @ ''      </tr>'' @ nl
       @ ''    ''
   \<and> rowHtml sampleHost sampleExplicit =
       nl @ ''      <tr>'' @ nl
       @ ''        <td class="patient-name"><strong>Ann</strong></td>'' @ nl
       @ ''        <td>0</td>'' @ nl
       @ ''        <td>'' @ cellInline sampleHost [Str ''a'', Str ''b'', Str ''c'']
           @ cellDisclosure sampleHost 4 [Str ''a'', Str ''b'', Str ''c'', Str ''d''] @ ''</td>'' @ nl
       @ ''        <td>'' @ cellEmpty @ ''</td>'' @ nl
       @ ''        <td>'' @ cellEmpty @ ''</td>'' @ nl
       @ ''        <td>0/5</td>'' @ nl
       @ ''        <td>Smoker | &lt;40</td>'' @ nl
       @ ''        <td class="ai-cell"><div class="ai-wrap"></div></td>'' @ nl
       @ ''      </tr>'' @ nl
       @ ''    ''
   \<and> (\<exists>pre post. fst (renderTable sampleHost [0, 1] sampleStore)
                      = pre @ rowHtml sampleHost (sampleStore 0) @ post)
   \<and> snd (rowRisks sampleHost sampleExplicit) = sampleExplicit
   \<and> snd (renderTable sampleHost [0, 1] (sampleStore(0 := sampleExplicit))) 0 = sampleExplicit\<close>
  apply (intro conjI)
  subgoal
    using rowHtml_riskCell [of sampleHost samplePatient 0 "[0, 1]" sampleStore]
    by (simp add: samplePatient_def sampleHost_def highBmi_def lowFeedback_def isAtLeast_def
        isBelow_def nullish_def fbOf_def escapeHtml_def escapeChar_def renderListCell_def
        cellInline_def cellDisclosure_def cellEmpty_def listItems_def nl_def showNat.simps)
  subgoal
    using rowHtml_riskCell [of sampleHost sampleExplicit 0 "[0, 1]" sampleStore]
    by (simp add: samplePatient_def sampleExplicit_def sampleHost_def nullish_def fbOf_def
        arrayJoin_def escapeHtml_def escapeChar_def renderListCell_def cellInline_def
        cellDisclosure_def cellEmpty_def listItems_def nl_def showNat.simps)
  subgoal
    using rowHtml_riskCell [of sampleHost samplePatient 0 "[0, 1]" sampleStore]
    by auto
  subgoal
    using rowHtml_riskCell [of sampleHost sampleExplicit 0 "[0, 1]" sampleStore]
    by (simp add: sampleExplicit_def)
  subgoal
    using rowHtml_riskCell [of sampleHost sampleExplicit 0 "[0, 1]" "sampleStore(0 := sampleExplicit)"]
    by (simp add: sampleExplicit_def)
  done

section \<open>Filters\<close>

lemma selectRows_eq:
  "selectRows h b f s allp =
     filter (\<lambda>a. bmiBand b (Number h (bmi (s a))) \<and> feedbackBand h f (feedback (s a))) allp"
  by (simp add: selectRows_def bmiBand_def feedbackBand_def num_ge_Fin num_lt_Fin Let_def)

lemma selectRows_settled:
  assumes "\<And>a. s' a = s a \<or> s' a = settle h (s a)"
  shows "selectRows h b f s' allp = selectRows h b f s allp"
proof -
  have "bmi (s' a) = bmi (s a) \<and> feedback (s' a) = feedback (s a)" for a
    using assms [of a] by (auto simp: settle_fields)
  then show ?thesis by (simp add: selectRows_eq)
qed

lemma applyFilters_allPatients: "allPatients (applyFilters h b f pg) = allPatients pg"
  by (simp add: applyFilters_def Let_def clearStatus_def showStatus_def renderTablePage_def
      drawCharts_def split: prod.splits)

lemma applyFilters_store:
  "store (applyFilters h b f pg) =
     snd (renderTable h (selectRows h b f (store pg) (allPatients pg)) (store pg))"
  by (simp add: applyFilters_def Let_def clearStatus_def showStatus_def renderTablePage_def
      drawCharts_def split: prod.splits)

lemma applyFilters_table:
  "patientsTable (applyFilters h b f pg) =
     fst (renderTable h (selectRows h b f (store pg) (allPatients pg)) (store pg))"
  by (simp add: applyFilters_def Let_def clearStatus_def showStatus_def renderTablePage_def
      drawCharts_def split: prod.splits)

lemma applyAll_allPatients: "allPatients (applyAll h fs pg) = allPatients pg"
  by (induction fs arbitrary: pg) (auto simp: applyFilters_allPatients)

lemma applyAll_store:
  "store (applyAll h fs pg) a = store pg a \<or> store (applyAll h fs pg) a = settle h (store pg a)"
proof (induction fs arbitrary: pg)
  case Nil
  show ?case by simp
next
  case (Cons bf fs)
  obtain b f where bf: "bf = (b, f)" by (cases bf)
  have 1: "store (applyFilters h b f pg) a = store pg a
         \<or> store (applyFilters h b f pg) a = settle h (store pg a)"
    by (simp add: applyFilters_store renderTable_store)
  from Cons.IH [of "applyFilters h b f pg"] 1 show ?case
    by (auto simp: bf settle_idem)
qed

text \<open>
  C4 (the band predicates). Whatever the two selections, \<open>applyFilters\<close> renders exactly the
  records of \<open>allPatients\<close>, in their order, that lie in the selected BMI band and in the
  selected feedback band. In particular \<open>high\<close> for BMI keeps exactly the records with a BMI of
  at least 30, \<open>low\<close> for feedback keeps exactly the records whose feedback is present and
  below 3, and \<open>medium\<close> for feedback is no band: it keeps every record.
\<close>

theorem applyFilters_bands:
  "selectRows h b f s allp =
     filter (\<lambda>a. bmiBand b (Number h (bmi (s a))) \<and> feedbackBand h f (feedback (s a))) allp
   \<and> selectRows h ''high'' ''all'' s allp = filter (\<lambda>a. isAtLeast 30 (Number h (bmi (s a)))) allp
   \<and> selectRows h ''all'' ''low'' s allp =
       filter (\<lambda>a. \<not> nullish (feedback (s a)) \<and> isBelow 3 (Number h (feedback (s a)))) allp
   \<and> selectRows h ''all'' ''medium'' s allp = allp
   \<and> patientsTable (applyFilters h b f pg) =
       fst (renderTable h (selectRows h b f (store pg) (allPatients pg)) (store pg))"
  by (simp add: selectRows_eq applyFilters_table bmiBand_def feedbackBand_def)

theorem applyFilters_bands_witness:
  "selectRows sampleHost ''high'' ''all'' sampleStore [0, 1] = [0]
   \<and> selectRows sampleHost ''low'' ''all'' sampleStore [0, 1] = [1]
   \<and> selectRows sampleHost ''all'' ''low'' sampleStore [0, 1] = [0]
   \<and> selectRows sampleHost ''all'' ''high'' sampleStore [0, 1] = []
   \<and> selectRows sampleHost ''all'' ''medium'' sampleStore [0, 1] = [0, 1]"
  using applyFilters_bands [of sampleHost "''high''" "''all''" sampleStore "[0, 1]" samplePage]
    applyFilters_bands [of sampleHost "''low''" "''all''" sampleStore "[0, 1]" samplePage]
    applyFilters_bands [of sampleHost "''all''" "''high''" sampleStore "[0, 1]" samplePage]
  by (simp add: sampleStore_def samplePatient_def bmiBand_def feedbackBand_def isAtLeast_def
      isBelow_def nullish_def)

section \<open>The retained record set\<close>

text \<open>
  C8 (\<open>allPatients\<close> is retained and every filter starts from it). After any run of filter
  applications \<open>allPatients\<close> is the list it was; a further application selects what it would
  have selected on the page as first loaded, so never from an earlier filtered subset;
  selecting \<open>all\<close> twice over selects the whole of \<open>allPatients\<close>; and the table it then renders
  is the table of the full record set as first loaded.
\<close>

theorem allPatients_retained:
  "allPatients (applyAll h fs pg) = allPatients pg
   \<and> selectRows h b f (store (applyAll h fs pg)) (allPatients (applyAll h fs pg))
       = selectRows h b f (store pg) (allPatients pg)
   \<and> selectRows h ''all'' ''all'' (store (applyAll h fs pg)) (allPatients (applyAll h fs pg))
       = allPatients pg
   \<and> patientsTable (applyFilters h ''all'' ''all'' (applyAll h fs pg))
       = fst (renderTable h (allPatients pg) (store pg))"
proof -
  let ?pg = "applyAll h fs pg"
  have sel: "selectRows h b' f' (store ?pg) (allPatients pg) = selectRows h b' f' (store pg) (allPatients pg)"
    for b' f'
    by (rule selectRows_settled) (rule applyAll_store)
  have all: "selectRows h ''all'' ''all'' (store pg) (allPatients pg) = allPatients pg"
    by (simp add: selectRows_eq bmiBand_def feedbackBand_def)
  have row: "rowHtml h (store ?pg a) = rowHtml h (store pg a)" for a
    using applyAll_store [of h fs pg a] by (auto simp: rowHtml_settle)
  have "patientsTable (applyFilters h ''all'' ''all'' ?pg) = fst (renderTable h (allPatients pg) (store ?pg))"
    by (simp only: applyFilters_table applyAll_allPatients sel all)
  also have "\<dots> = fst (renderTable h (allPatients pg) (store pg))"
    by (rule renderTable_html_cong) (rule row)
  finally show ?thesis
    by (simp only: applyAll_allPatients sel all simp_thms)
qed

theorem allPatients_retained_witness:
  "allPatients (applyAll sampleHost [(''high'', ''all''), (''low'', ''low'')] samplePage) = [0, 1]
   \<and> patientsTable (applyFilters sampleHost ''all'' ''all''
        (applyAll sampleHost [(''high'', ''all''), (''low'', ''low'')] samplePage))
       = fst (renderTable sampleHost [0, 1] sampleStore)"
  using allPatients_retained [of sampleHost "[(''high'', ''all''), (''low'', ''low'')]" samplePage]
  by (simp add: samplePage_def)

section \<open>Rendering changes the records\<close>

text \<open>
  C10 (\<open>renderTable\<close> mutates its input). A rendered record whose \<open>risks\<close> is an empty array has
  the synthesized labels pushed into that array: afterwards its \<open>risks\<close> holds the label for a
  BMI of at least 30 and the label for a present feedback below 3, as far as they apply. A
  record whose \<open>risks\<close> is not an array is left as it was, as is every record that is not among
  the rows. The store is the one \<open>allPatients\<close> refers to, so applying a filter changes the
  retained records it renders.
\<close>

theorem renderTable_mutates:
  "(a \<in> set rows \<and> risks (s a) = Arr [] \<longrightarrow>
      snd (renderTable h rows s) a = (s a)\<lparr>risks := Arr (map Str (synthesized h (s a)))\<rparr>)
   \<and> ((\<forall>xs. risks (s a) \<noteq> Arr xs) \<longrightarrow> snd (renderTable h rows s) a = s a)
   \<and> (a \<notin> set rows \<longrightarrow> snd (renderTable h rows s) a = s a)
   \<and> (a \<in> set (selectRows h b f (store pg) (allPatients pg)) \<and> risks (store pg a) = Arr [] \<longrightarrow>
        store (applyFilters h b f pg) a
          = (store pg a)\<lparr>risks := Arr (map Str (synthesized h (store pg a)))\<rparr>)"
  by (simp add: renderTable_store applyFilters_store settle_empty settle_not_array)

theorem renderTable_mutates_witness:
  "0 \<in> set [0, 1::nat] \<and> risks (sampleStore 0) = Arr []
   \<and> snd (renderTable sampleHost [0, 1] sampleStore) 0
       = samplePatient\<lparr>risks := Arr [Str highBmiLabel, Str lowFeedbackLabel]\<rparr>
   \<and> snd (renderTable sampleHost [0, 1] sampleStore) 1 = sampleStore 1
   \<and> store (applyFilters sampleHost ''high'' ''all'' samplePage) 0
       = samplePatient\<lparr>risks := Arr [Str highBmiLabel, Str lowFeedbackLabel]\<rparr>"
  using renderTable_mutates [of 0 "[0, 1]" sampleStore sampleHost "''high''" "''all''" samplePage]
    renderTable_mutates [of 1 "[0, 1]" sampleStore sampleHost "''high''" "''all''" samplePage]
  by (simp add: sampleStore_def samplePatient_def samplePage_def synthesized_def highBmi_def
      lowFeedback_def isAtLeast_def isBelow_def nullish_def selectRows_eq bmiBand_def feedbackBand_def)

section \<open>Chart instances\<close>

lemma wellTracked_bound:
  assumes "wellTracked hs r"
  shows "length (boundTo cv r) \<le> 1"
proof -
  have d: "distinct (boundTo cv r)"
    using assms by (simp add: wellTracked_def boundTo_def distinct_map_filter)
  have "set (boundTo cv r) \<subseteq> set_option (hs cv)"
    using assms by (auto simp: wellTracked_def boundTo_def)
  then have "card (set (boundTo cv r)) \<le> card (set_option (hs cv))"
    by (intro card_mono) auto
  also have "\<dots> \<le> 1" by (cases "hs cv") auto
  finally show ?thesis using d by (simp add: distinct_card)
qed

lemma fresh_tracked: "live r = [] \<Longrightarrow> wellTracked hs r"
  by (simp add: wellTracked_def)

lemma wellTracked_destroy: "wellTracked hs r \<Longrightarrow> wellTracked hs (destroyIfSet v r)"
  by (cases v) (auto simp: wellTracked_def destroyIfSet_def destroy_def distinct_map_filter)

lemma live_destroy: "set (live (destroyIfSet v r)) \<subseteq> set (live r)"
  by (cases v) (auto simp: destroyIfSet_def destroy_def)

lemma destroy_frees:
  assumes "wellTracked hs r" "(i, c) \<in> set (live (destroyIfSet (hs cv) r))"
  shows "canvas c \<noteq> cv"
proof
  assume cv: "canvas c = cv"
  have in_r: "(i, c) \<in> set (live r)" using assms(2) live_destroy by blast
  with assms(1) cv have "hs cv = Some i" by (auto simp: wellTracked_def)
  with assms(2) show False by (simp add: destroyIfSet_def destroy_def)
qed

lemma canvasFree_after_destroy: "wellTracked hs r \<Longrightarrow> canvasFree cv (destroyIfSet (hs cv) r)"
  unfolding canvasFree_def using destroy_frees by fastforce

lemma canvasFree_destroy: "canvasFree cv r \<Longrightarrow> canvasFree cv (destroyIfSet v r)"
  unfolding canvasFree_def using live_destroy by fastforce

lemma canvasFree_new: "canvasFree cv r \<Longrightarrow> canvas c \<noteq> cv \<Longrightarrow> canvasFree cv (snd (newChart c r))"
  by (auto simp: canvasFree_def newChart_def)

lemma wellTracked_newChart:
  assumes "wellTracked hs r" "canvasFree (canvas c) r"
  shows "wellTracked (hs(canvas c \<mapsto> nextId r)) (snd (newChart c r))"
  using assms by (fastforce simp: wellTracked_def newChart_def canvasFree_def)

lemma fst_newChart: "fst (newChart c r) = nextId r"
  by (simp add: newChart_def)

text \<open>Destroying what the canvas's variable holds and then creating keeps the invariant.\<close>

lemma redraw_tracked:
  assumes "wellTracked hs r"
  shows "wellTracked (hs(canvas c \<mapsto> fst (newChart c (destroyIfSet (hs (canvas c)) r))))
           (snd (newChart c (destroyIfSet (hs (canvas c)) r)))"
  unfolding fst_newChart
  by (rule wellTracked_newChart) (simp_all add: assms wellTracked_destroy canvasFree_after_destroy)

lemma drawCharts_tracked:
  assumes "wellTracked (clinicianHandles pg) (lib pg)"
  shows "wellTracked (clinicianHandles (drawCharts h rows pg)) (lib (drawCharts h rows pg))"
proof -
  let ?hs = "clinicianHandles pg"
  let ?r1 = "destroyIfSet (bmiChartInstance pg) (lib pg)"
  let ?r2 = "destroyIfSet (feedbackChartInstance pg) ?r1"
  have hb: "?hs ''bmiChart'' = bmiChartInstance pg"
    and hf: "?hs ''feedbackChart'' = feedbackChartInstance pg"
    by (simp_all add: clinicianHandles_def)
  have t1: "wellTracked ?hs ?r1" using assms by (rule wellTracked_destroy)
  have t2: "wellTracked ?hs ?r2" using t1 by (rule wellTracked_destroy)
  have fb1: "canvasFree ''bmiChart'' ?r1"
    using canvasFree_after_destroy [OF assms, of "''bmiChart''"] by (simp only: hb)
  have fb2: "canvasFree ''bmiChart'' ?r2" using fb1 by (rule canvasFree_destroy)
  have ff2: "canvasFree ''feedbackChart'' ?r2"
    using canvasFree_after_destroy [OF t1, of "''feedbackChart''"] by (simp only: hf)
  show ?thesis
  proof (cases "\<not> bmiCanvas pg \<or> \<not> fbCanvas pg")
    case True
    then show ?thesis using assms by (auto simp: drawCharts_def)
  next
    case canv: False
    show ?thesis
    proof (cases "length rows = 0")
      case True
      have "clinicianHandles (pg\<lparr>lib := ?r2\<rparr>) = ?hs"
        by (rule ext) (simp add: clinicianHandles_def)
      with canv True t2 show ?thesis by (simp add: drawCharts_def Let_def)
    next
      case False
      define cb where "cb = \<lparr>canvas = ''bmiChart'', kind = ''line'',
           labels = positionLabels (length rows), seriesLabel = ''BMI'',
           series = map (\<lambda>a. Num (Number h (bmi (store pg a)))) rows\<rparr>"
      define cf where "cf = \<lparr>canvas = ''feedbackChart'', kind = ''bar'',
           labels = positionLabels (length rows), seriesLabel = ''Feedback (0 = N/A)'',
           series = map (\<lambda>a. if nullish (feedback (store pg a)) then Num (Fin 0)
                            else Num (Number h (feedback (store pg a)))) rows\<rparr>"
      let ?r3 = "snd (newChart cb ?r2)"
      let ?i = "fst (newChart cb ?r2)"
      let ?r4 = "snd (newChart cf ?r3)"
      let ?j = "fst (newChart cf ?r3)"
      have cvb: "canvas cb = ''bmiChart''" and cvf: "canvas cf = ''feedbackChart''"
        by (simp_all add: cb_def cf_def)
      have t3: "wellTracked (?hs(''bmiChart'' \<mapsto> ?i)) ?r3"
        using wellTracked_newChart [OF t2, of cb] fb2 by (simp add: cvb fst_newChart)
      have ff3: "canvasFree ''feedbackChart'' ?r3"
        using ff2 by (rule canvasFree_new) (simp add: cvb)
      have t4: "wellTracked (?hs(''bmiChart'' \<mapsto> ?i, ''feedbackChart'' \<mapsto> ?j)) ?r4"
        using wellTracked_newChart [OF t3, of cf] ff3 by (simp add: cvf fst_newChart)
      have eq: "drawCharts h rows pg
                 = pg\<lparr>bmiChartInstance := Some ?i, feedbackChartInstance := Some ?j, lib := ?r4\<rparr>"
        using canv False by (simp add: drawCharts_def Let_def cb_def cf_def split: prod.splits)
      have "clinicianHandles (pg\<lparr>bmiChartInstance := Some ?i, feedbackChartInstance := Some ?j, lib := ?r4\<rparr>)
              = ?hs(''bmiChart'' \<mapsto> ?i, ''feedbackChart'' \<mapsto> ?j)"
        by (rule ext) (simp add: clinicianHandles_def)
      with t4 show ?thesis by (simp add: eq)
    qed
  qed
qed

lemma drawAll_tracked:
  "wellTracked (clinicianHandles pg) (lib pg)
   \<Longrightarrow> wellTracked (clinicianHandles (drawAll h rs pg)) (lib (drawAll h rs pg))"
  by (induction rs arbitrary: pg) (auto intro: drawCharts_tracked)

lemma historyLoaded_tracked:
  assumes "wellTracked (historyHandles hp) (hlib hp)"
  shows "wellTracked (historyHandles (historyLoaded h data hp)) (hlib (historyLoaded h data hp))"
proof -
  let ?r = "destroyIfSet (historyChart hp) (hlib hp)"
  have keep: "wellTracked (historyHandles (hp\<lparr>historyTable := t\<rparr>)) (hlib (hp\<lparr>historyTable := t\<rparr>))" for t
  proof -
    have "historyHandles (hp\<lparr>historyTable := t\<rparr>) = historyHandles hp"
      by (rule ext) (simp add: historyHandles_def)
    then show ?thesis using assms by simp
  qed
  have new: "wellTracked (historyHandles (hp\<lparr>historyTable := t, historyChart := Some i, hlib := r'\<rparr>)) r'"
    if nc: "newChart c ?r = (i, r')" and cv: "canvas c = ''bmiChart''" for t c i r'
  proof -
    have "historyHandles (hp\<lparr>historyTable := t, historyChart := Some i, hlib := r'\<rparr>)
          = (historyHandles hp)(canvas c \<mapsto> fst (newChart c (destroyIfSet (historyHandles hp (canvas c)) (hlib hp))))"
      by (rule ext) (simp add: historyHandles_def cv nc)
    moreover have "historyChart hp = historyHandles hp (canvas c)"
      by (simp add: historyHandles_def cv)
    ultimately show ?thesis using redraw_tracked [OF assms, of c] nc by simp
  qed
  show ?thesis
    using assms keep
    by (auto simp: historyLoaded_def Let_def split: jsval.splits sum.splits prod.splits
        intro!: new)
qed

lemma loadHistoryAll_tracked:
  "wellTracked (historyHandles hp) (hlib hp)
   \<Longrightarrow> wellTracked (historyHandles (loadHistoryAll h rs hp)) (hlib (loadHistoryAll h rs hp))"
proof (induction rs arbitrary: hp)
  case Nil
  then show ?case by simp
next
  case (Cons r rs)
  have "wellTracked (historyHandles (loadHistory h r hp)) (hlib (loadHistory h r hp))"
    using Cons.prems
    by (auto simp: loadHistory_def historyLoaded_tracked split: response.splits sum.splits)
  then show ?case using Cons.IH by simp
qed

lemma drawChart_tracked:
  assumes "wellTracked (charts pp) (plib pp)"
  shows "wellTracked (charts (snd (drawChart h ident ctype data label pp)))
           (plib (snd (drawChart h ident ctype data label pp)))"
proof (cases "chartData h data")
  case (Inl e)
  then show ?thesis using assms by (simp add: drawChart_def wellTracked_destroy)
next
  case (Inr lv)
  obtain lbls vals where lv: "lv = (lbls, vals)" by (cases lv)
  let ?c = "\<lparr>canvas = ident, kind = ctype, labels = lbls, seriesLabel = label, series = vals\<rparr>"
  from redraw_tracked [OF assms, of ?c] Inr lv show ?thesis
    by (simp add: drawChart_def Let_def split: prod.splits) (metis fst_conv snd_conv)
qed

lemma drawChartAll_tracked:
  "wellTracked (charts pp) (plib pp)
   \<Longrightarrow> wellTracked (charts (drawChartAll h cs pp)) (plib (drawChartAll h cs pp))"
  by (induction h cs pp rule: drawChartAll.induct) (auto intro: drawChart_tracked)

text \<open>Two redraws on the sample page: the first pair of instances is gone, the second is live.\<close>

lemma drawAll_example:
  "boundTo ''bmiChart'' (lib (drawAll sampleHost [[0, 1], [1]] samplePage)) = [2]
   \<and> boundTo ''feedbackChart'' (lib (drawAll sampleHost [[0, 1], [1]] samplePage)) = [3]
   \<and> bmiChartInstance (drawAll sampleHost [[0, 1], [1]] samplePage) = Some 2"
  by (simp add: drawCharts_def samplePage_def emptyRegistry_def destroyIfSet_def destroy_def
      newChart_def boundTo_def Let_def)

text \<open>
  C9 (never more than one chart instance per canvas). On a page that starts with no live
  chart, after any number of successive calls of a chart-drawing function, whatever their
  arguments, every canvas has at most one live instance bound to it: in the clinician's
  \<open>drawCharts\<close>, in the legacy \<open>loadHistory\<close>, and in the patient dashboard's \<open>drawChart\<close>.
\<close>

theorem one_chart_per_canvas:
  "(live (lib pg) = [] \<longrightarrow> length (boundTo cv (lib (drawAll h rs pg))) \<le> 1)
   \<and> (live (hlib hp) = [] \<longrightarrow> length (boundTo cv (hlib (loadHistoryAll h ds hp))) \<le> 1)
   \<and> (live (plib pp) = [] \<longrightarrow> length (boundTo cv (plib (drawChartAll h cs pp))) \<le> 1)"
  by (blast intro: wellTracked_bound drawAll_tracked loadHistoryAll_tracked drawChartAll_tracked
      fresh_tracked)

theorem one_chart_per_canvas_witness:
  "live (lib samplePage) = [] \<and> live (hlib sampleHistoryPage) = [] \<and> live (plib samplePatientPage) = []
   \<and> length (boundTo ''bmiChart'' (lib (drawAll sampleHost [[0, 1], [], [1]] samplePage))) \<le> 1
   \<and> length (boundTo ''bmiChart''
        (hlib (loadHistoryAll sampleHost [Response 200 (Inr (Arr [])), Response 200 (Inr (Arr []))]
                 sampleHistoryPage))) \<le> 1
   \<and> length (boundTo ''bmiChart''
        (plib (drawChartAll sampleHost [(''bmiChart'', ''line'', Arr [], ''BMI Trend''),
                             (''bmiChart'', ''line'', Null, ''BMI Trend'')] samplePatientPage))) \<le> 1"
  using one_chart_per_canvas [of samplePage "''bmiChart''" sampleHost "[[0, 1], [], [1]]"
      sampleHistoryPage "[Response 200 (Inr (Arr [])), Response 200 (Inr (Arr []))]"
      samplePatientPage "[(''bmiChart'', ''line'', Arr [], ''BMI Trend''),
                             (''bmiChart'', ''line'', Null, ''BMI Trend'')]"]
  by (simp add: samplePage_def sampleHistoryPage_def samplePatientPage_def emptyRegistry_def)

end
